theory Spec2Isabelle
  imports Complex_Main "HOL-Library.Multiset"
begin

section \<open>Data model\<close>

text \<open>
  The development embeds \<^verbatim>\<open>backend/open_webui/routers/dashboard.py\<close>.

  Numbers: Python's unbounded integers are \<^typ>\<open>int\<close>. Python's floats are idealised as
  exact rationals (\<^typ>\<open>rat\<close>): \<^verbatim>\<open>/\<close> is exact division and the literals \<^verbatim>\<open>0.1\<close>,
  \<^verbatim>\<open>0.01\<close> and \<^verbatim>\<open>0.3\<close> are the fractions they denote. Binary rounding error of IEEE
  doubles is outside the model.

  The JSON column \<^verbatim>\<open>File.meta\<close> is an arbitrary JSON value; \<open>JNull\<close> is Python's
  \<^verbatim>\<open>None\<close>. A dictionary is an association list read with \<^const>\<open>map_of\<close>.
\<close>

datatype json =
    JNull
  | JBool bool
  | JInt int
  | JFloat rat
  | JStr string
  | JList "json list"
  | JDict "(string \<times> json) list"

datatype exn =
    TypeError
  | KeyError
  | HTTPException int string

record User =
  u_id :: string
  u_name :: string
  u_email :: string
  u_last_active_at :: int

record Group =
  g_id :: string
  g_name :: string
  g_user_ids :: "string list option"

record Chat =
  chat_user_id :: string
  chat_created_at :: int

record File =
  file_user_id :: string
  file_created_at :: int
  file_meta :: json

record KnowledgeRow =
  knowledge_user_id :: string
  knowledge_created_at :: int

text \<open>\<open>message_created_at\<close> is in nanoseconds, the other timestamps in seconds.\<close>

record Message =
  message_user_id :: string
  message_created_at :: int

text \<open>The store: one list per table, in the order a query without a filter returns it.\<close>

record db =
  db_users :: "User list"
  db_groups :: "Group list"
  db_chats :: "Chat list"
  db_files :: "File list"
  db_knowledge :: "KnowledgeRow list"
  db_messages :: "Message list"

subsection \<open>Response models\<close>

record UserStorageStats =
  us_user_id :: string
  us_user_name :: string
  us_user_email :: string
  us_total_chats :: int
  us_total_files :: int
  us_total_images :: int
  us_total_knowledge :: int
  us_total_messages :: int
  us_storage_usage_mb :: rat
  us_last_active :: int

record ContentTypeStats =
  ct_content_type :: string
  ct_count :: int
  ct_percentage :: rat
  ct_total_size_mb :: rat

record GroupStats =
  gs_group_id :: string
  gs_group_name :: string
  gs_member_count :: int
  gs_total_chats :: int
  gs_total_files :: int
  gs_total_images :: int
  gs_total_knowledge :: int
  gs_total_messages :: int
  gs_storage_usage_mb :: rat

record DashboardOverview =
  ov_total_users :: int
  ov_active_users_7d :: int
  ov_active_users_30d :: int
  ov_total_chats :: int
  ov_total_files :: int
  ov_total_images :: int
  ov_total_knowledge :: int
  ov_total_messages :: int
  ov_total_storage_mb :: rat
  ov_content_type_breakdown :: "ContentTypeStats list"
  ov_top_users_by_storage :: "UserStorageStats list"
  ov_top_groups_by_activity :: "GroupStats list"

record TimeRangeStats =
  tr_period :: string
  tr_chats_created :: int
  tr_files_uploaded :: int
  tr_images_generated :: int
  tr_messages_sent :: int
  tr_storage_used_mb :: rat

section \<open>Python primitives used by the router\<close>

text \<open>Truth value of a JSON value in a condition (\<^verbatim>\<open>if file.meta and ...\<close>).\<close>

fun truthy :: "json \<Rightarrow> bool" where
  "truthy JNull = False"
| "truthy (JBool b) = b"
| "truthy (JInt n) = (n \<noteq> 0)"
| "truthy (JFloat r) = (r \<noteq> 0)"
| "truthy (JStr s) = (s \<noteq> [])"
| "truthy (JList xs) = (xs \<noteq> [])"
| "truthy (JDict kvs) = (kvs \<noteq> [])"

text \<open>\<^verbatim>\<open>isinstance(file.meta, dict)\<close>\<close>

fun isinstance_dict :: "json \<Rightarrow> bool" where
  "isinstance_dict (JDict kvs) = True"
| "isinstance_dict _ = False"

fun dict_items :: "json \<Rightarrow> (string \<times> json) list" where
  "dict_items (JDict kvs) = kvs"
| "dict_items _ = []"

text \<open>\<^verbatim>\<open>meta.get(key, default)\<close>, \<^verbatim>\<open>key in meta\<close> and \<^verbatim>\<open>meta[key]\<close>.\<close>

definition dict_get :: "json \<Rightarrow> string \<Rightarrow> json \<Rightarrow> json" where
  "dict_get m k d = (case map_of (dict_items m) k of None \<Rightarrow> d | Some v \<Rightarrow> v)"

definition dict_contains :: "string \<Rightarrow> json \<Rightarrow> bool" where
  "dict_contains k m = (case map_of (dict_items m) k of None \<Rightarrow> False | Some v \<Rightarrow> True)"

definition dict_getitem :: "json \<Rightarrow> string \<Rightarrow> exn + json" where
  "dict_getitem m k = (case map_of (dict_items m) k of None \<Rightarrow> Inl KeyError | Some v \<Rightarrow> Inr v)"

text \<open>
  \<^verbatim>\<open>value / (1024 * 1024)\<close>: true division of a JSON value by an integer. Integers,
  booleans (a subclass of int) and floats divide; every other value raises TypeError.
\<close>

fun truediv :: "json \<Rightarrow> int \<Rightarrow> exn + rat" where
  "truediv (JInt n) d = Inr (of_int n / of_int d)"
| "truediv (JBool b) d = Inr ((if b then 1 else 0) / of_int d)"
| "truediv (JFloat r) d = Inr (r / of_int d)"
| "truediv JNull d = Inl TypeError"
| "truediv (JStr s) d = Inl TypeError"
| "truediv (JList xs) d = Inl TypeError"
| "truediv (JDict kvs) d = Inl TypeError"

text \<open>\<^verbatim>\<open>round(x, ndigits)\<close>: to the nearest multiple of \<open>10 ^ -ndigits\<close>, ties to even.\<close>

definition round_half_even :: "rat \<Rightarrow> int" where
  "round_half_even x =
     (let f = \<lfloor>x\<rfloor>; d = x - of_int f
      in if d < 1 / 2 then f
         else if 1 / 2 < d then f + 1
         else if even f then f else f + 1)"

definition py_round :: "rat \<Rightarrow> nat \<Rightarrow> rat" where
  "py_round x ndigits = of_int (round_half_even (x * 10 ^ ndigits)) / 10 ^ ndigits"

text \<open>
  \<^verbatim>\<open>xs.sort(key=..., reverse=True)\<close>: a stable sort, descending by key; elements with
  equal keys keep their order.
\<close>

definition sort_reverse :: "('a \<Rightarrow> 'k::{linorder,uminus}) \<Rightarrow> 'a list \<Rightarrow> 'a list" where
  "sort_reverse key xs = sort_key (\<lambda>x. - key x) xs"

text \<open>\<^verbatim>\<open>xs[:k]\<close>: a negative bound counts from the end.\<close>

definition slice_to :: "'a list \<Rightarrow> int \<Rightarrow> 'a list" where
  "slice_to xs k = (if 0 \<le> k then take (nat k) xs else take (nat (int (length xs) + k)) xs)"

section \<open>Classifier and estimator\<close>

text \<open>
  The image test, written inline at every place that counts images:
  \<^verbatim>\<open>
  if file.meta and isinstance(file.meta, dict):
      content_type = file.meta.get('content_type', '')
      if content_type in ['image/png', 'image/jpeg', 'image/gif', 'image/webp']:
  \<close>
  Membership in the list compares with \<^verbatim>\<open>==\<close>, and a string equals only a string.
\<close>

definition image_content_types :: "json list" where
  "image_content_types =
     [JStr ''image/png'', JStr ''image/jpeg'', JStr ''image/gif'', JStr ''image/webp'']"

definition is_image :: "json \<Rightarrow> bool" where
  "is_image meta =
     (if truthy meta \<and> isinstance_dict meta
      then (let content_type = dict_get meta ''content_type'' (JStr '''')
            in content_type \<in> set image_content_types)
      else False)"

text \<open>The counting loop: \<^verbatim>\<open>for file in files: if ...: total_images += 1\<close>.\<close>

primrec count_images :: "File list \<Rightarrow> int \<Rightarrow> int" where
  "count_images [] total_images = total_images"
| "count_images (file # rest) total_images =
     count_images rest (if is_image (file_meta file) then total_images + 1 else total_images)"

text \<open>
  The file storage loop:
  \<^verbatim>\<open>
  for file in files:
      if file.meta and isinstance(file.meta, dict) and 'size' in file.meta:
          files_storage_mb += file.meta['size'] / (1024 * 1024)
  \<close>
  The second argument is the running sum when the loop starts.
\<close>

primrec add_file_sizes :: "File list \<Rightarrow> rat \<Rightarrow> exn + rat" where
  "add_file_sizes [] storage_mb = Inr storage_mb"
| "add_file_sizes (file # rest) storage_mb =
     (if truthy (file_meta file) \<and> isinstance_dict (file_meta file)
         \<and> dict_contains ''size'' (file_meta file)
      then (case dict_getitem (file_meta file) ''size'' of
              Inl e \<Rightarrow> Inl e
            | Inr v \<Rightarrow>
               (case truediv v (1024 * 1024) of
                  Inl e \<Rightarrow> Inl e
                | Inr mb \<Rightarrow> add_file_sizes rest (storage_mb + mb)))
      else add_file_sizes rest storage_mb)"

section \<open>Content-type breakdown\<close>

text \<open>
  The breakdown loop shared by the overview and the content-type endpoint; an entry of
  \<open>content_types\<close> is (type, count, storage).
\<close>

definition content_breakdown :: "(string \<times> int \<times> rat) list \<Rightarrow> ContentTypeStats list" where
  "content_breakdown content_types =
     (let total_content = sum_list (map (\<lambda>(t, c, s). c) content_types)
      in map (\<lambda>(t, c, s).
            \<lparr> ct_content_type = t,
              ct_count = c,
              ct_percentage =
                py_round (if total_content > 0
                          then of_int c / of_int total_content * 100 else 0) 2,
              ct_total_size_mb = py_round s 2 \<rparr>) content_types)"

definition content_type_statistics_body :: "db \<Rightarrow> exn + ContentTypeStats list" where
  "content_type_statistics_body st =
     (let total_chats = int (length (db_chats st));
          total_files = int (length (db_files st));
          total_knowledge = int (length (db_knowledge st));
          total_messages = int (length (db_messages st));
          files_list = db_files st;
          total_images = count_images files_list 0
      in case add_file_sizes files_list 0 of
           Inl e \<Rightarrow> Inl e
         | Inr files_storage_mb \<Rightarrow>
            (let knowledge_storage_mb = of_int total_knowledge * 1;
                 chats_storage_mb = of_int total_chats * (1 / 10);
                 messages_storage_mb = of_int total_messages * (1 / 100);
                 content_types =
                   [(''chats'', total_chats, chats_storage_mb),
                    (''files'', total_files, files_storage_mb),
                    (''images'', total_images, files_storage_mb * (3 / 10)),
                    (''knowledge'', total_knowledge, knowledge_storage_mb),
                    (''messages'', total_messages, messages_storage_mb)]
             in Inr (content_breakdown content_types)))"

text \<open>\<^verbatim>\<open>except Exception\<close> turns every exception of the body into a status 500.\<close>

definition get_content_type_statistics :: "db \<Rightarrow> exn + ContentTypeStats list" where
  "get_content_type_statistics st =
     (case content_type_statistics_body st of
        Inl e \<Rightarrow> Inl (HTTPException 500 ''Failed to get content type statistics'')
      | Inr r \<Rightarrow> Inr r)"

section \<open>Collector\<close>

text \<open>
  Modelled from the spec: \<^verbatim>\<open>Users.get_users(limit)\<close>, \<^verbatim>\<open>Users.get_num_users()\<close> and
  \<^verbatim>\<open>Groups.get_groups()\<close> live in the model modules, outside this router. The spec has
  the collector "fetch all users (optionally capped) and all groups": without a limit
  every user in fetch order, with a limit the first that many.
\<close>

definition get_users :: "db \<Rightarrow> int option \<Rightarrow> User list" where
  "get_users st limit =
     (case limit of None \<Rightarrow> db_users st | Some n \<Rightarrow> take (nat n) (db_users st))"

definition get_num_users :: "db \<Rightarrow> int" where
  "get_num_users st = int (length (db_users st))"

definition get_groups :: "db \<Rightarrow> Group list" where
  "get_groups st = db_groups st"

text \<open>\<^verbatim>\<open>db.query(T).filter(T.user_id == uid)\<close> for the four tables.\<close>

definition chats_of_user :: "db \<Rightarrow> string \<Rightarrow> Chat list" where
  "chats_of_user st uid = filter (\<lambda>c. chat_user_id c = uid) (db_chats st)"

definition files_of_user :: "db \<Rightarrow> string \<Rightarrow> File list" where
  "files_of_user st uid = filter (\<lambda>f. file_user_id f = uid) (db_files st)"

definition knowledge_of_user :: "db \<Rightarrow> string \<Rightarrow> KnowledgeRow list" where
  "knowledge_of_user st uid = filter (\<lambda>k. knowledge_user_id k = uid) (db_knowledge st)"

definition messages_of_user :: "db \<Rightarrow> string \<Rightarrow> Message list" where
  "messages_of_user st uid = filter (\<lambda>m. message_user_id m = uid) (db_messages st)"

section \<open>Per-user storage listing\<close>

text \<open>The body of \<^verbatim>\<open>for user_obj in users\<close>, the same in the overview and the listing.\<close>

definition user_entry :: "db \<Rightarrow> User \<Rightarrow> exn + UserStorageStats" where
  "user_entry st user_obj =
     (let user_chats = int (length (chats_of_user st (u_id user_obj)));
          user_files = int (length (files_of_user st (u_id user_obj)));
          user_file_list = files_of_user st (u_id user_obj);
          user_images = count_images user_file_list 0;
          user_knowledge = int (length (knowledge_of_user st (u_id user_obj)));
          user_messages = int (length (messages_of_user st (u_id user_obj)))
      in case add_file_sizes user_file_list 0 of
           Inl e \<Rightarrow> Inl e
         | Inr files_mb \<Rightarrow>
            (let user_storage_mb = files_mb + of_int user_knowledge * 1;
                 user_storage_mb = user_storage_mb + of_int user_chats * (1 / 10);
                 user_storage_mb = user_storage_mb + of_int user_messages * (1 / 100)
             in Inr \<lparr> us_user_id = u_id user_obj,
                      us_user_name = u_name user_obj,
                      us_user_email = u_email user_obj,
                      us_total_chats = user_chats,
                      us_total_files = user_files,
                      us_total_images = user_images,
                      us_total_knowledge = user_knowledge,
                      us_total_messages = user_messages,
                      us_storage_usage_mb = py_round user_storage_mb 2,
                      us_last_active = u_last_active_at user_obj \<rparr>))"

primrec user_stats_loop :: "db \<Rightarrow> User list \<Rightarrow> UserStorageStats list
    \<Rightarrow> exn + UserStorageStats list" where
  "user_stats_loop st [] user_stats = Inr user_stats"
| "user_stats_loop st (user_obj # rest) user_stats =
     (case user_entry st user_obj of
        Inl e \<Rightarrow> Inl e
      | Inr s \<Rightarrow> user_stats_loop st rest (user_stats @ [s]))"

definition users_storage_stats_body :: "db \<Rightarrow> int option \<Rightarrow> exn + UserStorageStats list" where
  "users_storage_stats_body st limit =
     (let users = get_users st limit
      in case user_stats_loop st users [] of
           Inl e \<Rightarrow> Inl e
         | Inr user_stats \<Rightarrow> Inr (sort_reverse us_storage_usage_mb user_stats))"

definition get_users_storage_stats :: "db \<Rightarrow> int option \<Rightarrow> exn + UserStorageStats list" where
  "get_users_storage_stats st limit =
     (case users_storage_stats_body st limit of
        Inl e \<Rightarrow> Inl (HTTPException 500 ''Failed to get users storage statistics'')
      | Inr r \<Rightarrow> Inr r)"

section \<open>Per-group activity listing\<close>

text \<open>
  The body of \<^verbatim>\<open>for user_id in group.user_ids\<close>. The accumulator is
  (group_chats, group_files, group_images, group_knowledge, group_messages,
  group_storage_mb).
\<close>

type_synonym group_acc = "int \<times> int \<times> int \<times> int \<times> int \<times> rat"

primrec member_loop :: "db \<Rightarrow> string list \<Rightarrow> group_acc \<Rightarrow> exn + group_acc" where
  "member_loop st [] acc = Inr acc"
| "member_loop st (user_id # rest) acc =
     (case acc of
        (group_chats, group_files, group_images, group_knowledge, group_messages,
         group_storage_mb) \<Rightarrow>
          (let user_chats = int (length (chats_of_user st user_id));
               user_files = int (length (files_of_user st user_id));
               user_file_list = files_of_user st user_id;
               user_images_count = count_images user_file_list 0;
               user_knowledge = int (length (knowledge_of_user st user_id));
               user_messages = int (length (messages_of_user st user_id))
           in case add_file_sizes user_file_list group_storage_mb of
                Inl e \<Rightarrow> Inl e
              | Inr storage_mb \<Rightarrow>
                  member_loop st rest
                    (group_chats + user_chats,
                     group_files + user_files,
                     group_images + user_images_count,
                     group_knowledge + user_knowledge,
                     group_messages + user_messages,
                     storage_mb + of_int user_knowledge * 1
                       + of_int user_chats * (1 / 10)
                       + of_int user_messages * (1 / 100))))"

text \<open>\<^verbatim>\<open>if group.user_ids\<close>: neither None nor empty.\<close>

definition user_ids_truthy :: "string list option \<Rightarrow> bool" where
  "user_ids_truthy ids = (case ids of None \<Rightarrow> False | Some xs \<Rightarrow> xs \<noteq> [])"

definition group_entry :: "db \<Rightarrow> Group \<Rightarrow> exn + GroupStats" where
  "group_entry st grp =
     (let member_count =
            (if user_ids_truthy (g_user_ids grp) then int (length (the (g_user_ids grp)))
             else 0)
      in case (if user_ids_truthy (g_user_ids grp)
               then member_loop st (the (g_user_ids grp)) (0, 0, 0, 0, 0, 0)
               else Inr (0, 0, 0, 0, 0, 0)) of
           Inl e \<Rightarrow> Inl e
         | Inr (group_chats, group_files, group_images, group_knowledge, group_messages,
                group_storage_mb) \<Rightarrow>
             Inr \<lparr> gs_group_id = g_id grp,
                   gs_group_name = g_name grp,
                   gs_member_count = member_count,
                   gs_total_chats = group_chats,
                   gs_total_files = group_files,
                   gs_total_images = group_images,
                   gs_total_knowledge = group_knowledge,
                   gs_total_messages = group_messages,
                   gs_storage_usage_mb = py_round group_storage_mb 2 \<rparr>)"

primrec group_stats_loop :: "db \<Rightarrow> Group list \<Rightarrow> GroupStats list \<Rightarrow> exn + GroupStats list" where
  "group_stats_loop st [] group_stats = Inr group_stats"
| "group_stats_loop st (grp # rest) group_stats =
     (case group_entry st grp of
        Inl e \<Rightarrow> Inl e
      | Inr s \<Rightarrow> group_stats_loop st rest (group_stats @ [s]))"

text \<open>The sort key of the group ranking.\<close>

definition group_activity :: "GroupStats \<Rightarrow> int" where
  "group_activity x = gs_total_chats x + gs_total_files x + gs_total_images x + gs_total_knowledge x"

definition groups_activity_stats_body :: "db \<Rightarrow> int option \<Rightarrow> exn + GroupStats list" where
  "groups_activity_stats_body st limit =
     (let groups = get_groups st
      in case group_stats_loop st groups [] of
           Inl e \<Rightarrow> Inl e
         | Inr group_stats \<Rightarrow>
            (let group_stats = sort_reverse group_activity group_stats
             in Inr (case limit of
                       None \<Rightarrow> group_stats
                     | Some n \<Rightarrow> if n \<noteq> 0 then slice_to group_stats n else group_stats)))"

definition get_groups_activity_stats :: "db \<Rightarrow> int option \<Rightarrow> exn + GroupStats list" where
  "get_groups_activity_stats st limit =
     (case groups_activity_stats_body st limit of
        Inl e \<Rightarrow> Inl (HTTPException 500 ''Failed to get groups activity statistics'')
      | Inr r \<Rightarrow> Inr r)"

section \<open>Overview\<close>

text \<open>\<open>now\<close> is \<^verbatim>\<open>int(time.time())\<close>.\<close>

definition dashboard_overview_body :: "int \<Rightarrow> db \<Rightarrow> exn + DashboardOverview" where
  "dashboard_overview_body now st =
     (let total_users = get_num_users st;
          seven_days_ago = now - (7 * 24 * 60 * 60);
          thirty_days_ago = now - (30 * 24 * 60 * 60);
          active_users_7d =
            int (length (filter (\<lambda>u. u_last_active_at u \<ge> seven_days_ago) (db_users st)));
          active_users_30d =
            int (length (filter (\<lambda>u. u_last_active_at u \<ge> thirty_days_ago) (db_users st)));
          total_chats = int (length (db_chats st));
          total_files = int (length (db_files st));
          total_knowledge = int (length (db_knowledge st));
          total_messages = int (length (db_messages st));
          files = db_files st;
          total_images = count_images files 0
      in case add_file_sizes files 0 of
           Inl e \<Rightarrow> Inl e
         | Inr files_storage_mb \<Rightarrow>
            (let knowledge_storage_mb = of_int total_knowledge * 1;
                 chats_storage_mb = of_int total_chats * (1 / 10);
                 messages_storage_mb = of_int total_messages * (1 / 100);
                 total_storage_mb = files_storage_mb + knowledge_storage_mb
                                      + chats_storage_mb + messages_storage_mb;
                 content_types =
                   [(''chats'', total_chats, chats_storage_mb),
                    (''files'', total_files, files_storage_mb),
                    (''images'', total_images, files_storage_mb * (3 / 10)),
                    (''knowledge'', total_knowledge, knowledge_storage_mb),
                    (''messages'', total_messages, messages_storage_mb)];
                 content_type_breakdown = content_breakdown content_types;
                 users = get_users st None
             in case user_stats_loop st users [] of
                  Inl e \<Rightarrow> Inl e
                | Inr user_stats \<Rightarrow>
                   (let top_users_by_storage =
                          take 10 (sort_reverse us_storage_usage_mb user_stats);
                        groups = get_groups st
                    in case group_stats_loop st groups [] of
                         Inl e \<Rightarrow> Inl e
                       | Inr group_stats \<Rightarrow>
                          (let top_groups_by_activity =
                                 take 10 (sort_reverse group_activity group_stats)
                           in Inr \<lparr> ov_total_users = total_users,
                                    ov_active_users_7d = active_users_7d,
                                    ov_active_users_30d = active_users_30d,
                                    ov_total_chats = total_chats,
                                    ov_total_files = total_files,
                                    ov_total_images = total_images,
                                    ov_total_knowledge = total_knowledge,
                                    ov_total_messages = total_messages,
                                    ov_total_storage_mb = py_round total_storage_mb 2,
                                    ov_content_type_breakdown = content_type_breakdown,
                                    ov_top_users_by_storage = top_users_by_storage,
                                    ov_top_groups_by_activity = top_groups_by_activity \<rparr>))))"

definition get_dashboard_overview :: "int \<Rightarrow> db \<Rightarrow> exn + DashboardOverview" where
  "get_dashboard_overview now st =
     (case dashboard_overview_body now st of
        Inl e \<Rightarrow> Inl (HTTPException 500 ''Failed to get dashboard overview'')
      | Inr r \<Rightarrow> Inr r)"

section \<open>Time series\<close>

text \<open>The period keyword: \<^verbatim>\<open>if period == "7d": days = 7 ... else: raise HTTPException(400)\<close>.\<close>

definition period_days :: "string \<Rightarrow> exn + int" where
  "period_days period =
     (if period = ''7d'' then Inr 7
      else if period = ''30d'' then Inr 30
      else if period = ''90d'' then Inr 90
      else Inl (HTTPException 400 ''Invalid period. Use 7d, 30d, or 90d''))"

text \<open>\<^verbatim>\<open>range(days)\<close>\<close>

definition py_range :: "int \<Rightarrow> int list" where
  "py_range n = map int [0..<nat n]"

text \<open>The window of day \<open>i\<close>: (period_start, period_end).\<close>

definition period_window :: "int \<Rightarrow> int \<Rightarrow> int \<times> int" where
  "period_window start_time i =
     (let period_start = start_time + (i * 24 * 60 * 60);
          period_end = period_start + (24 * 60 * 60)
      in (period_start, period_end))"

text \<open>
  The body of \<^verbatim>\<open>for i in range(days)\<close>. \<open>strftime\<close> stands for
  \<^verbatim>\<open>datetime.fromtimestamp(t).strftime("%Y-%m-%d")\<close>, which depends on the local time
  zone of the server. The logging calls have no part in the result and are left out.
\<close>

definition time_bucket :: "(int \<Rightarrow> string) \<Rightarrow> db \<Rightarrow> int \<Rightarrow> int \<Rightarrow> exn + TimeRangeStats" where
  "time_bucket strftime st start_time i =
     (case period_window start_time i of
        (period_start, period_end) \<Rightarrow>
          (let chats_created =
                 int (length (filter (\<lambda>c. chat_created_at c \<ge> period_start
                                            \<and> chat_created_at c < period_end) (db_chats st)));
               files_uploaded =
                 int (length (filter (\<lambda>f. file_created_at f \<ge> period_start
                                            \<and> file_created_at f < period_end) (db_files st)));
               period_files =
                 filter (\<lambda>f. file_created_at f \<ge> period_start
                               \<and> file_created_at f < period_end) (db_files st);
               images_generated = count_images period_files 0;
               knowledge_created =
                 int (length (filter (\<lambda>k. knowledge_created_at k \<ge> period_start
                                            \<and> knowledge_created_at k < period_end)
                                (db_knowledge st)));
               period_start_ns = period_start * 1000000000;
               period_end_ns = period_end * 1000000000;
               messages_sent =
                 int (length (filter (\<lambda>m. message_created_at m \<ge> period_start_ns
                                            \<and> message_created_at m < period_end_ns)
                                (db_messages st)))
           in case add_file_sizes period_files 0 of
                Inl e \<Rightarrow> Inl e
              | Inr files_mb \<Rightarrow>
                 (let storage_used_mb = files_mb + of_int knowledge_created * 1;
                      storage_used_mb = storage_used_mb + of_int chats_created * (1 / 10);
                      storage_used_mb = storage_used_mb + of_int messages_sent * (1 / 100)
                  in Inr \<lparr> tr_period = strftime period_start,
                           tr_chats_created = chats_created,
                           tr_files_uploaded = files_uploaded,
                           tr_images_generated = images_generated,
                           tr_messages_sent = messages_sent,
                           tr_storage_used_mb = py_round storage_used_mb 2 \<rparr>)))"

primrec time_series_loop :: "(int \<Rightarrow> string) \<Rightarrow> db \<Rightarrow> int \<Rightarrow> int list \<Rightarrow> TimeRangeStats list
    \<Rightarrow> exn + TimeRangeStats list" where
  "time_series_loop strftime st start_time [] time_series_data = Inr time_series_data"
| "time_series_loop strftime st start_time (i # rest) time_series_data =
     (case time_bucket strftime st start_time i of
        Inl e \<Rightarrow> Inl e
      | Inr b \<Rightarrow> time_series_loop strftime st start_time rest (time_series_data @ [b]))"

definition time_series_statistics_body :: "(int \<Rightarrow> string) \<Rightarrow> int \<Rightarrow> db \<Rightarrow> string
    \<Rightarrow> exn + TimeRangeStats list" where
  "time_series_statistics_body strftime now st period =
     (case period_days period of
        Inl e \<Rightarrow> Inl e
      | Inr days \<Rightarrow>
         (let start_time = now - (days * 24 * 60 * 60)
          in time_series_loop strftime st start_time (py_range days) []))"

text \<open>
  The validation error is raised inside the \<^verbatim>\<open>try\<close> block, and \<^verbatim>\<open>HTTPException\<close> is a
  subclass of \<^verbatim>\<open>Exception\<close>: the handler catches it like every other exception.
\<close>

definition get_time_series_statistics :: "(int \<Rightarrow> string) \<Rightarrow> int \<Rightarrow> db \<Rightarrow> string
    \<Rightarrow> exn + TimeRangeStats list" where
  "get_time_series_statistics strftime now st period =
     (case time_series_statistics_body strftime now st period of
        Inl e \<Rightarrow> Inl (HTTPException 500 ''Failed to get time series statistics'')
      | Inr r \<Rightarrow> Inr r)"

section \<open>Reference definitions\<close>

text \<open>
  What the specification says each figure is, written as closed formulas. The theorems
  below compare the loops of the router with them.
\<close>

text \<open>The number a JSON value divides as, if it is one.\<close>

fun json_number :: "json \<Rightarrow> rat option" where
  "json_number (JInt n) = Some (of_int n)"
| "json_number (JBool b) = Some (if b then 1 else 0)"
| "json_number (JFloat r) = Some r"
| "json_number JNull = None"
| "json_number (JStr s) = None"
| "json_number (JList xs) = None"
| "json_number (JDict kvs) = None"

text \<open>The declared byte size of a file: the value under the metadata key "size".\<close>

definition declared_size :: "File \<Rightarrow> json option" where
  "declared_size f = map_of (dict_items (file_meta f)) ''size''"

text \<open>Declared size divided by 1,048,576; a file without a declared size contributes 0.\<close>

definition spec_file_mb :: "File \<Rightarrow> rat" where
  "spec_file_mb f =
     (case declared_size f of
        None \<Rightarrow> 0
      | Some v \<Rightarrow> (case json_number v of None \<Rightarrow> 0 | Some x \<Rightarrow> x / 1048576))"

definition spec_files_mb :: "File list \<Rightarrow> rat" where
  "spec_files_mb fs = sum_list (map spec_file_mb fs)"

text \<open>Every declared size is a number; every declared number is non-negative.\<close>

definition size_numeric :: "File \<Rightarrow> bool" where
  "size_numeric f =
     (case declared_size f of None \<Rightarrow> True | Some v \<Rightarrow> json_number v \<noteq> None)"

definition size_nonneg :: "File \<Rightarrow> bool" where
  "size_nonneg f =
     (case declared_size f of
        None \<Rightarrow> True
      | Some v \<Rightarrow> (case json_number v of None \<Rightarrow> True | Some x \<Rightarrow> 0 \<le> x))"

definition spec_count_images :: "File list \<Rightarrow> int" where
  "spec_count_images fs = int (length (filter (\<lambda>f. is_image (file_meta f)) fs))"

text \<open>
  The unrounded estimate of one user: files_mb + knowledge x 1 + chats x 0.1 +
  messages x 0.01.
\<close>

definition spec_user_estimate_mb :: "db \<Rightarrow> string \<Rightarrow> rat" where
  "spec_user_estimate_mb st uid =
     spec_files_mb (files_of_user st uid)
       + of_int (int (length (knowledge_of_user st uid))) * 1
       + of_int (int (length (chats_of_user st uid))) * (1 / 10)
       + of_int (int (length (messages_of_user st uid))) * (1 / 100)"

definition spec_user_summary :: "db \<Rightarrow> User \<Rightarrow> UserStorageStats" where
  "spec_user_summary st u =
     \<lparr> us_user_id = u_id u,
       us_user_name = u_name u,
       us_user_email = u_email u,
       us_total_chats = int (length (chats_of_user st (u_id u))),
       us_total_files = int (length (files_of_user st (u_id u))),
       us_total_images = spec_count_images (files_of_user st (u_id u)),
       us_total_knowledge = int (length (knowledge_of_user st (u_id u))),
       us_total_messages = int (length (messages_of_user st (u_id u))),
       us_storage_usage_mb = py_round (spec_user_estimate_mb st (u_id u)) 2,
       us_last_active = u_last_active_at u \<rparr>"

text \<open>The members of a group; no member list is no members.\<close>

definition members :: "Group \<Rightarrow> string list" where
  "members g = (case g_user_ids g of None \<Rightarrow> [] | Some ids \<Rightarrow> ids)"

text \<open>A group summary: every figure is the sum over the member ids, one term per entry.\<close>

definition spec_group_summary :: "db \<Rightarrow> Group \<Rightarrow> GroupStats" where
  "spec_group_summary st g =
     \<lparr> gs_group_id = g_id g,
       gs_group_name = g_name g,
       gs_member_count = int (length (members g)),
       gs_total_chats = sum_list (map (\<lambda>uid. int (length (chats_of_user st uid))) (members g)),
       gs_total_files = sum_list (map (\<lambda>uid. int (length (files_of_user st uid))) (members g)),
       gs_total_images =
         sum_list (map (\<lambda>uid. spec_count_images (files_of_user st uid)) (members g)),
       gs_total_knowledge =
         sum_list (map (\<lambda>uid. int (length (knowledge_of_user st uid))) (members g)),
       gs_total_messages =
         sum_list (map (\<lambda>uid. int (length (messages_of_user st uid))) (members g)),
       gs_storage_usage_mb =
         py_round (sum_list (map (spec_user_estimate_mb st) (members g))) 2 \<rparr>"

text \<open>The limit of the group listing: None and 0 return everything.\<close>

definition apply_limit :: "int option \<Rightarrow> 'a list \<Rightarrow> 'a list" where
  "apply_limit limit xs =
     (case limit of None \<Rightarrow> xs | Some n \<Rightarrow> if n = 0 then xs else slice_to xs n)"

text \<open>Membership of a timestamp in the half-open window from \<open>lo\<close> to \<open>hi\<close>.\<close>

definition in_window :: "int \<Rightarrow> int \<Rightarrow> int \<Rightarrow> bool" where
  "in_window lo hi t = (lo \<le> t \<and> t < hi)"

text \<open>
  The bucket of the window from \<open>lo\<close> to \<open>hi\<close> (seconds): counts of the entities created
  in it, messages compared in nanoseconds, and the estimate of those entities.
\<close>

definition spec_bucket :: "(int \<Rightarrow> string) \<Rightarrow> db \<Rightarrow> int \<Rightarrow> int \<Rightarrow> TimeRangeStats" where
  "spec_bucket strftime st lo hi =
     \<lparr> tr_period = strftime lo,
       tr_chats_created =
         int (length (filter (\<lambda>c. in_window lo hi (chat_created_at c)) (db_chats st))),
       tr_files_uploaded =
         int (length (filter (\<lambda>f. in_window lo hi (file_created_at f)) (db_files st))),
       tr_images_generated =
         spec_count_images (filter (\<lambda>f. in_window lo hi (file_created_at f)) (db_files st)),
       tr_messages_sent =
         int (length (filter (\<lambda>m. in_window (lo * 1000000000) (hi * 1000000000)
                                     (message_created_at m)) (db_messages st))),
       tr_storage_used_mb =
         py_round
           (spec_files_mb (filter (\<lambda>f. in_window lo hi (file_created_at f)) (db_files st))
              + of_int (int (length (filter (\<lambda>k. in_window lo hi (knowledge_created_at k))
                                       (db_knowledge st)))) * 1
              + of_int (int (length (filter (\<lambda>c. in_window lo hi (chat_created_at c))
                                       (db_chats st)))) * (1 / 10)
              + of_int (int (length (filter (\<lambda>m. in_window (lo * 1000000000)
                                                   (hi * 1000000000) (message_created_at m))
                                       (db_messages st)))) * (1 / 100)) 2 \<rparr>"

text \<open>The five rows of the content-type breakdown: (category, count, unrounded MB).\<close>

definition content_rows :: "db \<Rightarrow> (string \<times> int \<times> rat) list" where
  "content_rows st =
     [(''chats'', int (length (db_chats st)), of_int (int (length (db_chats st))) * (1 / 10)),
      (''files'', int (length (db_files st)), spec_files_mb (db_files st)),
      (''images'', spec_count_images (db_files st), spec_files_mb (db_files st) * (3 / 10)),
      (''knowledge'', int (length (db_knowledge st)), of_int (int (length (db_knowledge st))) * 1),
      (''messages'', int (length (db_messages st)),
         of_int (int (length (db_messages st))) * (1 / 100))]"

text \<open>The overview in closed form.\<close>

definition spec_overview :: "int \<Rightarrow> db \<Rightarrow> DashboardOverview" where
  "spec_overview now st =
     \<lparr> ov_total_users = int (length (db_users st)),
       ov_active_users_7d =
         int (length (filter (\<lambda>u. now - 604800 \<le> u_last_active_at u) (db_users st))),
       ov_active_users_30d =
         int (length (filter (\<lambda>u. now - 2592000 \<le> u_last_active_at u) (db_users st))),
       ov_total_chats = int (length (db_chats st)),
       ov_total_files = int (length (db_files st)),
       ov_total_images = spec_count_images (db_files st),
       ov_total_knowledge = int (length (db_knowledge st)),
       ov_total_messages = int (length (db_messages st)),
       ov_total_storage_mb =
         py_round (spec_files_mb (db_files st)
                    + of_int (int (length (db_knowledge st))) * 1
                    + of_int (int (length (db_chats st))) * (1 / 10)
                    + of_int (int (length (db_messages st))) * (1 / 100)) 2,
       ov_content_type_breakdown = content_breakdown (content_rows st),
       ov_top_users_by_storage =
         take 10 (sort_reverse us_storage_usage_mb (map (spec_user_summary st) (db_users st))),
       ov_top_groups_by_activity =
         take 10 (sort_reverse group_activity (map (spec_group_summary st) (db_groups st))) \<rparr>"

section \<open>Example stores\<close>

definition file_of :: "string \<Rightarrow> int \<Rightarrow> json \<Rightarrow> File" where
  "file_of uid t meta = \<lparr> file_user_id = uid, file_created_at = t, file_meta = meta \<rparr>"

definition user_of :: "string \<Rightarrow> User" where
  "user_of uid = \<lparr> u_id = uid, u_name = uid, u_email = uid, u_last_active_at = 0 \<rparr>"

definition empty_db :: db where
  "empty_db = \<lparr> db_users = [], db_groups = [], db_chats = [], db_files = [],
                db_knowledge = [], db_messages = [] \<rparr>"


text \<open>One file whose metadata declares a negative size.\<close>

definition negative_size_db :: db where
  "negative_size_db =
     empty_db \<lparr> db_files := [file_of ''u'' 0 (JDict [(''size'', JInt (- 1048576))])] \<rparr>"

text \<open>
  Users a, b, c in fetch order; a and b own nothing, c owns one knowledge entry. Groups
  g1 and g2 both contain c.
\<close>

definition three_users_db :: db where
  "three_users_db =
     empty_db \<lparr> db_users := [user_of ''a'', user_of ''b'', user_of ''c''],
                db_groups := [\<lparr> g_id = ''g1'', g_name = ''g1'', g_user_ids = Some [''a'', ''c''] \<rparr>,
                              \<lparr> g_id = ''g2'', g_name = ''g2'', g_user_ids = Some [''c''] \<rparr>],
                db_knowledge := [\<lparr> knowledge_user_id = ''c'', knowledge_created_at = 0 \<rparr>] \<rparr>"

text \<open>
  The example of the specification: one user with three files (1,048,576 bytes, 2,097,152
  bytes and 0 bytes, none an image), two knowledge entries, ten chats and a hundred
  messages.
\<close>

definition spec_example_db :: db where
  "spec_example_db =
     empty_db \<lparr> db_users := [user_of ''u''],
                db_chats := replicate 10 \<lparr> chat_user_id = ''u'', chat_created_at = 0 \<rparr>,
                db_files := [file_of ''u'' 0 (JDict [(''size'', JInt 1048576)]),
                             file_of ''u'' 0 (JDict [(''size'', JInt 2097152)]),
                             file_of ''u'' 0 (JDict [(''size'', JInt 0)])],
                db_knowledge := replicate 2 \<lparr> knowledge_user_id = ''u'', knowledge_created_at = 0 \<rparr>,
                db_messages := replicate 100 \<lparr> message_user_id = ''u'', message_created_at = 0 \<rparr> \<rparr>"

section \<open>The loops compute the reference figures\<close>

lemma count_images_eq: "count_images fs n = n + spec_count_images fs"
  by (induction fs arbitrary: n) (auto simp: spec_count_images_def)

lemma getitem_size:
  "dict_getitem (file_meta f) ''size'' =
     (case declared_size f of None \<Rightarrow> Inl KeyError | Some v \<Rightarrow> Inr v)"
  by (simp add: dict_getitem_def declared_size_def)

lemma contains_size: "dict_contains ''size'' (file_meta f) = (declared_size f \<noteq> None)"
  by (simp add: dict_contains_def declared_size_def split: option.splits)

lemma declared_size_guard:
  "declared_size f = Some v \<Longrightarrow> truthy (file_meta f) \<and> isinstance_dict (file_meta f)"
  by (cases "file_meta f") (auto simp: declared_size_def)

lemma truediv_number:
  "truediv v d =
     (case json_number v of None \<Rightarrow> Inl TypeError | Some x \<Rightarrow> Inr (x / of_int d))"
  by (cases v) auto

text \<open>When the storage loop returns, it has added the reference figure to its start value.\<close>

lemma add_file_sizes_Inr: "add_file_sizes fs acc = Inr r \<Longrightarrow> r = acc + spec_files_mb fs"
proof (induction fs arbitrary: acc)
  case Nil
  then show ?case by (simp add: spec_files_mb_def)
next
  case (Cons f fs)
  show ?case
  proof (cases "declared_size f")
    case None
    with Cons.prems have "add_file_sizes fs acc = Inr r"
      by (simp add: contains_size)
    from Cons.IH[OF this] None show ?thesis
      by (simp add: spec_files_mb_def spec_file_mb_def)
  next
    case (Some v)
    note g = declared_size_guard[OF Some]
    from Cons.prems Some g obtain x
      where x: "json_number v = Some x"
        and r: "add_file_sizes fs (acc + x / 1048576) = Inr r"
      by (auto simp: contains_size getitem_size truediv_number split: option.splits)
    from Cons.IH[OF r] Some x show ?thesis
      by (simp add: spec_files_mb_def spec_file_mb_def)
  qed
qed

text \<open>It returns whenever every declared size is a number.\<close>

lemma add_file_sizes_total:
  "list_all size_numeric fs \<Longrightarrow> add_file_sizes fs acc = Inr (acc + spec_files_mb fs)"
proof (induction fs arbitrary: acc)
  case Nil
  then show ?case by (simp add: spec_files_mb_def)
next
  case (Cons f fs)
  then have IH: "\<And>a. add_file_sizes fs a = Inr (a + spec_files_mb fs)" by simp
  show ?case
  proof (cases "declared_size f")
    case None
    then show ?thesis using IH
      by (simp add: contains_size spec_files_mb_def spec_file_mb_def)
  next
    case (Some v)
    note g = declared_size_guard[OF Some]
    from Cons.prems Some obtain x where x: "json_number v = Some x"
      by (auto simp: size_numeric_def)
    show ?thesis using IH[of "acc + x / 1048576"] Some x g
      by (simp add: contains_size getitem_size truediv_number spec_files_mb_def
          spec_file_mb_def)
  qed
qed

lemma list_all_filter: "list_all P xs \<Longrightarrow> list_all P (filter Q xs)"
  by (induction xs) auto

lemma user_entry_Inr: "user_entry st u = Inr s \<Longrightarrow> s = spec_user_summary st u"
  by (auto simp: user_entry_def Let_def spec_user_summary_def
      count_images_eq spec_user_estimate_mb_def
      split: sum.splits dest!: add_file_sizes_Inr)

lemma user_entry_total:
  "list_all size_numeric (db_files st) \<Longrightarrow> user_entry st u = Inr (spec_user_summary st u)"
proof -
  assume "list_all size_numeric (db_files st)"
  then have "list_all size_numeric (files_of_user st (u_id u))"
    by (simp add: files_of_user_def list_all_filter)
  from add_file_sizes_total[OF this, of 0] show ?thesis
    by (simp add: user_entry_def Let_def spec_user_summary_def count_images_eq
        spec_user_estimate_mb_def)
qed

lemma user_stats_loop_Inr:
  "user_stats_loop st us acc = Inr r \<Longrightarrow> r = acc @ map (spec_user_summary st) us"
proof (induction us arbitrary: acc)
  case Nil then show ?case by simp
next
  case (Cons u us)
  then obtain s where s: "user_entry st u = Inr s" and r: "user_stats_loop st us (acc @ [s]) = Inr r"
    by (auto split: sum.splits)
  from Cons.IH[OF r] user_entry_Inr[OF s] show ?case by simp
qed

lemma user_stats_loop_total:
  "list_all size_numeric (db_files st) \<Longrightarrow>
   user_stats_loop st us acc = Inr (acc @ map (spec_user_summary st) us)"
  by (induction us arbitrary: acc) (simp_all add: user_entry_total)

lemma users_body_Inr:
  "users_storage_stats_body st limit = Inr r \<Longrightarrow>
   r = sort_reverse us_storage_usage_mb (map (spec_user_summary st) (get_users st limit))"
  by (auto simp: users_storage_stats_body_def Let_def split: sum.splits
      dest!: user_stats_loop_Inr)

lemma users_stats_Inr:
  "get_users_storage_stats st limit = Inr r \<Longrightarrow>
   r = sort_reverse us_storage_usage_mb (map (spec_user_summary st) (get_users st limit))"
  by (auto simp: get_users_storage_stats_def split: sum.splits dest!: users_body_Inr)

lemma users_stats_total:
  "list_all size_numeric (db_files st) \<Longrightarrow>
   get_users_storage_stats st limit =
     Inr (sort_reverse us_storage_usage_mb (map (spec_user_summary st) (get_users st limit)))"
  by (simp add: get_users_storage_stats_def users_storage_stats_body_def Let_def
      user_stats_loop_total)

lemma member_loop_Inr:
  "member_loop st ids (c, f, i, k, m, s) = Inr r \<Longrightarrow>
   r = (c + sum_list (map (\<lambda>uid. int (length (chats_of_user st uid))) ids),
        f + sum_list (map (\<lambda>uid. int (length (files_of_user st uid))) ids),
        i + sum_list (map (\<lambda>uid. spec_count_images (files_of_user st uid)) ids),
        k + sum_list (map (\<lambda>uid. int (length (knowledge_of_user st uid))) ids),
        m + sum_list (map (\<lambda>uid. int (length (messages_of_user st uid))) ids),
        s + sum_list (map (spec_user_estimate_mb st) ids))"
proof (induction ids arbitrary: c f i k m s)
  case Nil then show ?case by simp
next
  case (Cons uid ids)
  from Cons.prems obtain s' where
    s': "add_file_sizes (files_of_user st uid) s = Inr s'" and
    r: "member_loop st ids
          (c + int (length (chats_of_user st uid)),
           f + int (length (files_of_user st uid)),
           i + count_images (files_of_user st uid) 0,
           k + int (length (knowledge_of_user st uid)),
           m + int (length (messages_of_user st uid)),
           s' + of_int (int (length (knowledge_of_user st uid))) * 1
              + of_int (int (length (chats_of_user st uid))) * (1 / 10)
              + of_int (int (length (messages_of_user st uid))) * (1 / 100)) = Inr r"
    by (auto simp: Let_def split: sum.splits)
  from Cons.IH[OF r] add_file_sizes_Inr[OF s'] show ?case
    by (simp add: count_images_eq spec_user_estimate_mb_def)
qed


lemma group_entry_Inr: "group_entry st g = Inr s \<Longrightarrow> s = spec_group_summary st g"
proof (cases "user_ids_truthy (g_user_ids g)")
  case True
  assume a: "group_entry st g = Inr s"
  from True obtain ids where ids: "g_user_ids g = Some ids" "ids \<noteq> []"
    by (auto simp: user_ids_truthy_def split: option.splits)
  from a True ids obtain r where r: "member_loop st ids (0, 0, 0, 0, 0, 0) = Inr r"
    by (auto simp: group_entry_def Let_def split: sum.splits)
  from member_loop_Inr[OF r] a r True ids show ?thesis
    by (simp add: group_entry_def Let_def spec_group_summary_def members_def)
next
  case False
  assume a: "group_entry st g = Inr s"
  from False have "members g = []"
    by (auto simp: user_ids_truthy_def members_def split: option.splits)
  with a False show ?thesis
    by (simp add: group_entry_def Let_def spec_group_summary_def)
qed


lemma group_stats_loop_Inr:
  "group_stats_loop st gs acc = Inr r \<Longrightarrow> r = acc @ map (spec_group_summary st) gs"
proof (induction gs arbitrary: acc)
  case Nil then show ?case by simp
next
  case (Cons g gs)
  then obtain s where s: "group_entry st g = Inr s" and r: "group_stats_loop st gs (acc @ [s]) = Inr r"
    by (auto split: sum.splits)
  from Cons.IH[OF r] group_entry_Inr[OF s] show ?case by simp
qed


lemma groups_stats_Inr:
  "get_groups_activity_stats st limit = Inr r \<Longrightarrow>
   r = apply_limit limit (sort_reverse group_activity (map (spec_group_summary st) (db_groups st)))"
  by (auto simp: get_groups_activity_stats_def groups_activity_stats_body_def Let_def
      apply_limit_def get_groups_def
      split: sum.splits option.splits dest!: group_stats_loop_Inr)


lemma period_window_eq:
  "period_window start_time i = (start_time + i * 86400, start_time + (i + 1) * 86400)"
  by (simp add: period_window_def Let_def algebra_simps)

lemma time_bucket_Inr:
  "time_bucket strftime st start_time i = Inr b \<Longrightarrow>
   b = spec_bucket strftime st (start_time + i * 86400) (start_time + (i + 1) * 86400)"
  by (auto simp: time_bucket_def period_window_eq Let_def spec_bucket_def in_window_def
      count_images_eq conj_commute
      split: sum.splits dest!: add_file_sizes_Inr)

lemma time_bucket_total:
  assumes "list_all size_numeric (db_files st)"
  shows "time_bucket strftime st start_time i
     = Inr (spec_bucket strftime st (start_time + i * 86400) (start_time + (i + 1) * 86400))"
proof -
  let ?fs = "filter (\<lambda>f. file_created_at f \<ge> start_time + i * 86400
                \<and> file_created_at f < start_time + (i + 1) * 86400) (db_files st)"
  from assms have "list_all size_numeric ?fs" by (rule list_all_filter)
  from add_file_sizes_total[OF this, of 0] have "\<exists>b. time_bucket strftime st start_time i = Inr b"
    by (simp add: time_bucket_def period_window_eq Let_def)
  then show ?thesis using time_bucket_Inr by blast
qed

lemma time_series_loop_Inr:
  "time_series_loop strftime st start_time is acc = Inr r \<Longrightarrow>
   r = acc @ map (\<lambda>i. spec_bucket strftime st (start_time + i * 86400)
                       (start_time + (i + 1) * 86400)) is"
proof (induction "is" arbitrary: acc)
  case Nil then show ?case by simp
next
  case (Cons i "is")
  then obtain b where b: "time_bucket strftime st start_time i = Inr b"
    and r: "time_series_loop strftime st start_time is (acc @ [b]) = Inr r"
    by (auto split: sum.splits)
  from Cons.IH[OF r] time_bucket_Inr[OF b] show ?case by simp
qed

lemma time_series_loop_total:
  "list_all size_numeric (db_files st) \<Longrightarrow>
   time_series_loop strftime st start_time is acc =
     Inr (acc @ map (\<lambda>i. spec_bucket strftime st (start_time + i * 86400)
                       (start_time + (i + 1) * 86400)) is)"
  by (induction "is" arbitrary: acc) (simp_all add: time_bucket_total)

lemma time_series_Inr:
  "get_time_series_statistics strftime now st period = Inr r \<Longrightarrow>
   \<exists>days. period_days period = Inr days \<and>
     r = map (\<lambda>i. spec_bucket strftime st (now - days * 86400 + i * 86400)
                       (now - days * 86400 + (i + 1) * 86400)) (py_range days)"
  by (auto simp: get_time_series_statistics_def time_series_statistics_body_def Let_def
      mult.commute split: sum.splits dest!: time_series_loop_Inr)

lemma time_series_total:
  "list_all size_numeric (db_files st) \<Longrightarrow> period_days period = Inr days \<Longrightarrow>
   get_time_series_statistics strftime now st period =
     Inr (map (\<lambda>i. spec_bucket strftime st (now - days * 86400 + i * 86400)
                       (now - days * 86400 + (i + 1) * 86400)) (py_range days))"
  by (simp add: get_time_series_statistics_def time_series_statistics_body_def Let_def
      time_series_loop_total mult.commute)

subsection \<open>Rounding\<close>

lemma round_half_even_err: "\<bar>of_int (round_half_even x) - x\<bar> \<le> 1 / 2"
proof -
  have "of_int \<lfloor>x\<rfloor> \<le> x" "x < of_int \<lfloor>x\<rfloor> + 1" by linarith+
  then show ?thesis
    by (auto simp: round_half_even_def Let_def)
qed

lemma round_half_even_nonneg: "0 \<le> x \<Longrightarrow> 0 \<le> round_half_even x"
proof -
  assume "0 \<le> x"
  then have "0 \<le> \<lfloor>x\<rfloor>" by simp
  then show ?thesis by (auto simp: round_half_even_def Let_def)
qed

lemma py_round_err: "\<bar>py_round x 2 - x\<bar> \<le> 1 / 200"
proof -
  have "\<bar>of_int (round_half_even (x * 100)) - x * 100\<bar> \<le> 1 / 2"
    by (rule round_half_even_err)
  then show ?thesis by (simp add: py_round_def abs_le_iff field_simps)
qed

lemma py_round_nonneg: "0 \<le> x \<Longrightarrow> 0 \<le> py_round x n"
  by (simp add: py_round_def round_half_even_nonneg)

lemma py_round_zero: "py_round 0 n = 0"
  by (simp add: py_round_def round_half_even_def)

subsection \<open>Sorting\<close>

lemma mset_sort_reverse: "mset (sort_reverse key xs) = mset xs"
  by (simp add: sort_reverse_def)

lemma set_sort_reverse: "set (sort_reverse key xs) = set xs"
  by (simp add: sort_reverse_def)

lemma sort_reverse_descending:
  fixes key :: "'a \<Rightarrow> 'k::linordered_ab_group_add"
  shows "sorted_wrt (\<lambda>a b. key a \<ge> key b) (sort_reverse key xs)"
proof -
  have "sorted (map (\<lambda>x. - key x) (sort_reverse key xs))"
    by (simp add: sort_reverse_def)
  then show ?thesis by (simp add: sorted_map)
qed

lemma sort_reverse_stable:
  fixes key :: "'a \<Rightarrow> 'k::linordered_ab_group_add"
  shows "filter (\<lambda>x. key x = v) (sort_reverse key xs) = filter (\<lambda>x. key x = v) xs"
  using sort_key_stable[of "\<lambda>x. - key x" "- v" xs] by (simp add: sort_reverse_def)

subsection \<open>Content-type breakdown\<close>

lemma length_content_breakdown: "length (content_breakdown cts) = length cts"
  by (simp add: content_breakdown_def Let_def)

lemma counts_content_breakdown: "map ct_count (content_breakdown cts) = map (\<lambda>(t, c, s). c) cts"
  by (simp add: content_breakdown_def Let_def case_prod_beta)


lemma percentages_content_breakdown:
  "map ct_percentage (content_breakdown cts) =
     map (\<lambda>(t, c, s). py_round (if sum_list (map (\<lambda>(t, c, s). c) cts) > 0
        then of_int c / of_int (sum_list (map (\<lambda>(t, c, s). c) cts)) * 100 else 0) 2) cts"
  by (simp add: content_breakdown_def Let_def case_prod_beta)

lemma sum_list_abs_diff:
  fixes f g :: "'a \<Rightarrow> rat"
  shows "(\<And>x. \<bar>f x - g x\<bar> \<le> e) \<Longrightarrow>
    \<bar>sum_list (map f xs) - sum_list (map g xs)\<bar> \<le> of_nat (length xs) * e"
proof (induction xs)
  case Nil then show ?case by simp
next
  case (Cons x xs)
  have "\<bar>f x - g x\<bar> \<le> e" by (rule Cons.prems)
  moreover have "\<bar>sum_list (map f xs) - sum_list (map g xs)\<bar> \<le> of_nat (length xs) * e"
    by (rule Cons.IH) (rule Cons.prems)
  ultimately show ?case by (simp add: algebra_simps abs_le_iff)
qed

lemma sum_list_scaled:
  fixes d :: rat
  shows "sum_list (map (\<lambda>(t, c, s). of_int c / d * 100) cts)
           = of_int (sum_list (map (\<lambda>(t, c, s). c) cts)) / d * 100"
  by (induction cts) (auto simp: add_divide_distrib distrib_right)

lemma exact_percentages:
  fixes T :: int
  assumes "0 < T" "T = sum_list (map (\<lambda>(t, c, s). c) cts)"
  shows "sum_list (map (\<lambda>(t, c, s). of_int c / of_int T * (100::rat)) cts) = 100"
proof -
  from assms(1) have "of_int T / of_int T * (100::rat) = 100" by simp
  then show ?thesis by (simp only: sum_list_scaled assms(2)[symmetric])
qed

lemma percentages_sum:
  assumes "0 < sum_list (map ct_count (content_breakdown cts))"
  shows "\<bar>sum_list (map ct_percentage (content_breakdown cts)) - 100\<bar>
           \<le> of_nat (length cts) * (1 / 200)"
proof -
  let ?T = "sum_list (map (\<lambda>(t, c, s). c) cts)"
  from assms have T: "0 < ?T" by (simp add: counts_content_breakdown)
  have "\<bar>sum_list (map (\<lambda>(t, c, s). py_round (of_int c / of_int ?T * 100) 2) cts)
         - sum_list (map (\<lambda>(t, c, s). of_int c / of_int ?T * 100) cts)\<bar>
        \<le> of_nat (length cts) * (1 / 200)"
  proof (rule sum_list_abs_diff)
    fix x :: "'a \<times> int \<times> 'b"
    show "\<bar>(case x of (t, c, s) \<Rightarrow> py_round (of_int c / of_int ?T * 100) 2)
            - (case x of (t, c, s) \<Rightarrow> of_int c / of_int ?T * 100)\<bar> \<le> 1 / 200"
      by (cases x) (simp only: prod.case py_round_err)
  qed
  with exact_percentages[OF T refl] T show ?thesis
    by (simp add: percentages_content_breakdown)
qed

lemma percentages_zero:
  assumes "sum_list (map ct_count (content_breakdown cts)) = 0"
  shows "map ct_percentage (content_breakdown cts) = replicate (length cts) 0"
proof -
  from assms have "sum_list (map (\<lambda>(t, c, s). c) cts) = 0" by (simp add: counts_content_breakdown)
  moreover have "map (\<lambda>(t, c, s). 0::rat) cts = replicate (length cts) 0"
    by (induction cts) auto
  ultimately show ?thesis
    by (simp add: percentages_content_breakdown py_round_zero)
qed

lemma content_types_Inr:
  "get_content_type_statistics st = Inr r \<Longrightarrow> r = content_breakdown (content_rows st)"
  by (auto simp: get_content_type_statistics_def content_type_statistics_body_def Let_def
      content_rows_def count_images_eq
      split: sum.splits dest!: add_file_sizes_Inr)

lemma content_types_total:
  "list_all size_numeric (db_files st) \<Longrightarrow>
   get_content_type_statistics st = Inr (content_breakdown (content_rows st))"
  by (simp add: get_content_type_statistics_def content_type_statistics_body_def Let_def
      content_rows_def count_images_eq add_file_sizes_total)

lemma overview_Inr:
  "get_dashboard_overview now st = Inr ov \<Longrightarrow> ov = spec_overview now st"
  by (auto simp: get_dashboard_overview_def dashboard_overview_body_def Let_def
      spec_overview_def content_rows_def count_images_eq get_users_def get_groups_def
      get_num_users_def
      split: sum.splits
      dest!: add_file_sizes_Inr user_stats_loop_Inr group_stats_loop_Inr)


section \<open>Time series: the period keyword\<close>

text \<open>
  C1. The claim: a period keyword other than 7d, 30d or 90d yields an input-validation
  error, distinct from the generic internal error. In the code the keyword 60d does raise
  the validation error (status 400) inside the body, but the handler around the body
  replaces it: the caller receives the generic internal error (status 500), for every
  store and every time.
\<close>

theorem invalid_period_reported_as_internal_error:
  "time_series_statistics_body strftime now st ''60d''
     = Inl (HTTPException 400 ''Invalid period. Use 7d, 30d, or 90d'')
   \<and> get_time_series_statistics strftime now st ''60d''
     = Inl (HTTPException 500 ''Failed to get time series statistics'')"
  by (simp add: get_time_series_statistics_def time_series_statistics_body_def
      period_days_def)

section \<open>Classifier\<close>

text \<open>
  C5. The classifier answers "image" exactly when the metadata is a mapping whose
  content_type entry is one of the four literal strings image/png, image/jpeg, image/gif,
  image/webp. Absent metadata, metadata of another JSON type, a missing key or any other
  value give "not an image". The classifier is a total function into the booleans: it has
  no error result.
\<close>

theorem is_image_exactly_four_literals:
  "is_image meta =
     (case meta of
        JDict kvs \<Rightarrow>
          map_of kvs ''content_type''
            \<in> {Some (JStr ''image/png''), Some (JStr ''image/jpeg''),
               Some (JStr ''image/gif''), Some (JStr ''image/webp'')}
      | _ \<Rightarrow> False)"
  by (cases meta)
    (auto simp: is_image_def dict_get_def image_content_types_def split: option.splits)

section \<open>Storage totals\<close>




section \<open>Per-user totals\<close>



section \<open>Non-negative figures\<close>

lemma spec_file_mb_nonneg: "size_nonneg f \<Longrightarrow> 0 \<le> spec_file_mb f"
  by (auto simp: size_nonneg_def spec_file_mb_def split: option.splits)

lemma spec_files_mb_nonneg: "list_all size_nonneg fs \<Longrightarrow> 0 \<le> spec_files_mb fs"
  unfolding spec_files_mb_def
  by (rule sum_list_nonneg) (auto simp: list_all_iff spec_file_mb_nonneg)

lemma spec_user_estimate_mb_nonneg:
  assumes "list_all size_nonneg (db_files st)"
  shows "0 \<le> spec_user_estimate_mb st uid"
proof -
  from assms have "list_all size_nonneg (files_of_user st uid)"
    by (simp add: files_of_user_def list_all_filter)
  then have "0 \<le> spec_files_mb (files_of_user st uid)" by (rule spec_files_mb_nonneg)
  then show ?thesis by (simp add: spec_user_estimate_mb_def)
qed

lemma user_summaries_nonneg:
  assumes "list_all size_nonneg (db_files st)"
  shows "list_all (\<lambda>s. 0 \<le> us_storage_usage_mb s) (map (spec_user_summary st) us)"
  using assms
  by (simp add: list_all_iff spec_user_summary_def py_round_nonneg spec_user_estimate_mb_nonneg)

lemma group_summaries_nonneg:
  assumes "list_all size_nonneg (db_files st)"
  shows "list_all (\<lambda>g. 0 \<le> gs_storage_usage_mb g) (map (spec_group_summary st) gs)"
proof -
  have "0 \<le> sum_list (map (spec_user_estimate_mb st) ids)" for ids
    by (rule sum_list_nonneg) (auto simp: spec_user_estimate_mb_nonneg[OF assms])
  then show ?thesis
    by (simp add: list_all_iff spec_group_summary_def py_round_nonneg)
qed

lemma content_rows_nonneg:
  assumes "list_all size_nonneg (db_files st)"
  shows "list_all (\<lambda>c. 0 \<le> ct_total_size_mb c) (content_breakdown (content_rows st))"
proof -
  from assms have "0 \<le> spec_files_mb (db_files st)" by (rule spec_files_mb_nonneg)
  then show ?thesis
    by (simp add: content_breakdown_def content_rows_def Let_def py_round_nonneg)
qed

lemma bucket_nonneg:
  assumes "list_all size_nonneg (db_files st)"
  shows "0 \<le> tr_storage_used_mb (spec_bucket strftime st lo hi)"
proof -
  from assms have "list_all size_nonneg (filter (\<lambda>f. in_window lo hi (file_created_at f)) (db_files st))"
    by (rule list_all_filter)
  then have "0 \<le> spec_files_mb (filter (\<lambda>f. in_window lo hi (file_created_at f)) (db_files st))"
    by (rule spec_files_mb_nonneg)
  then show ?thesis by (simp add: spec_bucket_def py_round_nonneg)
qed

lemma list_all_sort_reverse: "list_all P (sort_reverse key xs) = list_all P xs"
  by (simp add: list_all_iff set_sort_reverse)

lemma list_all_take: "list_all P xs \<Longrightarrow> list_all P (take n xs)"
  by (auto simp: list_all_iff dest: in_set_takeD)

lemma list_all_apply_limit: "list_all P xs \<Longrightarrow> list_all P (apply_limit limit xs)"
  by (auto simp: apply_limit_def slice_to_def list_all_take split: option.splits)

text \<open>
  C4, as stated: every estimated MB figure is non-negative for every store state. For
  the store with one file whose metadata declares the size -1,048,576 the content-type
  breakdown reports -1 MB for files and -0.3 MB for images.
\<close>

theorem negative_declared_size_counterexample:
  "get_content_type_statistics negative_size_db = Inr
     [\<lparr>ct_content_type = ''chats'', ct_count = 0, ct_percentage = 0, ct_total_size_mb = 0\<rparr>,
      \<lparr>ct_content_type = ''files'', ct_count = 1, ct_percentage = 100,
         ct_total_size_mb = - 1\<rparr>,
      \<lparr>ct_content_type = ''images'', ct_count = 0, ct_percentage = 0,
         ct_total_size_mb = - (3 / 10)\<rparr>,
      \<lparr>ct_content_type = ''knowledge'', ct_count = 0, ct_percentage = 0,
         ct_total_size_mb = 0\<rparr>,
      \<lparr>ct_content_type = ''messages'', ct_count = 0, ct_percentage = 0,
         ct_total_size_mb = 0\<rparr>]"
  by code_simp

text \<open>
  C4, amended: in a store where no file declares a negative size, every estimated MB
  figure that an operation returns is non-negative: the category figures of the
  breakdown, the overview total, the per-user and per-group figures (in the listings and
  in the overview) and the per-bucket figures.
\<close>

theorem estimates_nonneg:
  assumes "list_all size_nonneg (db_files st)"
  shows "(\<forall>r. get_content_type_statistics st = Inr r \<longrightarrow>
            list_all (\<lambda>c. 0 \<le> ct_total_size_mb c) r)
       \<and> (\<forall>ov. get_dashboard_overview now st = Inr ov \<longrightarrow>
            0 \<le> ov_total_storage_mb ov
            \<and> list_all (\<lambda>c. 0 \<le> ct_total_size_mb c) (ov_content_type_breakdown ov)
            \<and> list_all (\<lambda>s. 0 \<le> us_storage_usage_mb s) (ov_top_users_by_storage ov)
            \<and> list_all (\<lambda>g. 0 \<le> gs_storage_usage_mb g) (ov_top_groups_by_activity ov))
       \<and> (\<forall>r. get_users_storage_stats st ulimit = Inr r \<longrightarrow>
            list_all (\<lambda>s. 0 \<le> us_storage_usage_mb s) r)
       \<and> (\<forall>r. get_groups_activity_stats st glimit = Inr r \<longrightarrow>
            list_all (\<lambda>g. 0 \<le> gs_storage_usage_mb g) r)
       \<and> (\<forall>r. get_time_series_statistics strftime now st period = Inr r \<longrightarrow>
            list_all (\<lambda>b. 0 \<le> tr_storage_used_mb b) r)"
proof (intro conjI allI impI)
  fix r assume "get_content_type_statistics st = Inr r"
  then show "list_all (\<lambda>c. 0 \<le> ct_total_size_mb c) r"
    using content_rows_nonneg[OF assms] by (auto dest!: content_types_Inr)
next
  fix ov assume "get_dashboard_overview now st = Inr ov"
  then have ov: "ov = spec_overview now st" by (rule overview_Inr)
  from assms have "0 \<le> spec_files_mb (db_files st)" by (rule spec_files_mb_nonneg)
  then show "0 \<le> ov_total_storage_mb ov"
    by (simp add: ov spec_overview_def py_round_nonneg)
  show "list_all (\<lambda>c. 0 \<le> ct_total_size_mb c) (ov_content_type_breakdown ov)"
    using content_rows_nonneg[OF assms] by (simp add: ov spec_overview_def)
  show "list_all (\<lambda>s. 0 \<le> us_storage_usage_mb s) (ov_top_users_by_storage ov)"
    using user_summaries_nonneg[OF assms, of "db_users st"]
    by (simp add: ov spec_overview_def list_all_take list_all_sort_reverse)
  show "list_all (\<lambda>g. 0 \<le> gs_storage_usage_mb g) (ov_top_groups_by_activity ov)"
    using group_summaries_nonneg[OF assms, of "db_groups st"]
    by (simp add: ov spec_overview_def list_all_take list_all_sort_reverse)
next
  fix r assume "get_users_storage_stats st ulimit = Inr r"
  then show "list_all (\<lambda>s. 0 \<le> us_storage_usage_mb s) r"
    using user_summaries_nonneg[OF assms, of "get_users st ulimit"]
    by (auto dest!: users_stats_Inr simp: list_all_sort_reverse)
next
  fix r assume "get_groups_activity_stats st glimit = Inr r"
  then show "list_all (\<lambda>g. 0 \<le> gs_storage_usage_mb g) r"
    using group_summaries_nonneg[OF assms, of "db_groups st"]
    by (auto dest!: groups_stats_Inr simp: list_all_sort_reverse list_all_apply_limit)
next
  fix r assume "get_time_series_statistics strftime now st period = Inr r"
  then show "list_all (\<lambda>b. 0 \<le> tr_storage_used_mb b) r"
    by (auto dest!: time_series_Inr simp: list_all_iff bucket_nonneg[OF assms])
qed

theorem estimates_nonneg_witness:
  "list_all size_nonneg (db_files spec_example_db)
   \<and> get_users_storage_stats spec_example_db None = Inr
       [\<lparr> us_user_id = ''u'', us_user_name = ''u'', us_user_email = ''u'', us_total_chats = 10,
          us_total_files = 3, us_total_images = 0, us_total_knowledge = 2,
          us_total_messages = 100, us_storage_usage_mb = 7, us_last_active = 0 \<rparr>]
   \<and> list_all (\<lambda>s. 0 \<le> us_storage_usage_mb s)
       [\<lparr> us_user_id = ''u'', us_user_name = ''u'', us_user_email = ''u'', us_total_chats = 10,
          us_total_files = 3, us_total_images = 0, us_total_knowledge = 2,
          us_total_messages = 100, us_storage_usage_mb = 7, us_last_active = 0 \<rparr>]"
proof -
  have n: "list_all size_nonneg (db_files spec_example_db)" by code_simp
  have h: "get_users_storage_stats spec_example_db None = Inr
       [\<lparr> us_user_id = ''u'', us_user_name = ''u'', us_user_email = ''u'', us_total_chats = 10,
          us_total_files = 3, us_total_images = 0, us_total_knowledge = 2,
          us_total_messages = 100, us_storage_usage_mb = 7, us_last_active = 0 \<rparr>]"
    by code_simp
  from estimates_nonneg[OF n, of 0 None None "\<lambda>t. []" "''7d''"] h
  have "list_all (\<lambda>s. 0 \<le> us_storage_usage_mb s)
       [\<lparr> us_user_id = ''u'', us_user_name = ''u'', us_user_email = ''u'', us_total_chats = 10,
          us_total_files = 3, us_total_images = 0, us_total_knowledge = 2,
          us_total_messages = 100, us_storage_usage_mb = 7, us_last_active = 0 \<rparr>]"
    by blast
  with n h show ?thesis by blast
qed

section \<open>Percentages\<close>

lemma content_rows_total_nonneg: "0 \<le> sum_list (map ct_count (content_breakdown (content_rows st)))"
  by (simp add: counts_content_breakdown content_rows_def spec_count_images_def)

lemma breakdown_percentages:
  "length (content_breakdown (content_rows st)) = 5
   \<and> 0 \<le> sum_list (map ct_count (content_breakdown (content_rows st)))
   \<and> (if 0 < sum_list (map ct_count (content_breakdown (content_rows st)))
      then \<bar>sum_list (map ct_percentage (content_breakdown (content_rows st))) - 100\<bar> \<le> 5 / 100
      else map ct_percentage (content_breakdown (content_rows st)) = [0, 0, 0, 0, 0])"
proof -
  let ?r = "content_breakdown (content_rows st)"
  have len: "length (content_rows st) = 5" by (simp add: content_rows_def)
  have nn: "0 \<le> sum_list (map ct_count ?r)" by (rule content_rows_total_nonneg)
  have pos: "\<bar>sum_list (map ct_percentage ?r) - 100\<bar> \<le> 5 / 100"
    if "0 < sum_list (map ct_count ?r)"
    using percentages_sum[OF that] len by simp
  have zero: "map ct_percentage ?r = [0, 0, 0, 0, 0]"
    if "\<not> 0 < sum_list (map ct_count ?r)"
  proof -
    from that nn have "sum_list (map ct_count ?r) = 0" by simp
    from percentages_zero[OF this] len show ?thesis
      by (simp add: numeral_eq_Suc)
  qed
  from len nn pos zero show ?thesis by (simp add: length_content_breakdown)
qed

text \<open>
  C6. The content-type breakdown, returned by the content-type operation and inside the
  overview, has five rows. When the total count over the rows is greater than 0 the five
  percentages sum to 100 within 0.05 (0.01 for each category); otherwise the total is 0
  and the five percentages are 0. The operation returns whenever every declared size is
  a number, so the empty store divides nothing by zero.
\<close>

theorem percentages_sum_to_100:
  "(\<forall>r. get_content_type_statistics st = Inr r \<longrightarrow>
      length r = 5
      \<and> (if 0 < sum_list (map ct_count r)
         then \<bar>sum_list (map ct_percentage r) - 100\<bar> \<le> 5 / 100
         else sum_list (map ct_count r) = 0 \<and> map ct_percentage r = [0, 0, 0, 0, 0]))
   \<and> (\<forall>ov. get_dashboard_overview now st = Inr ov \<longrightarrow>
      length (ov_content_type_breakdown ov) = 5
      \<and> (if 0 < sum_list (map ct_count (ov_content_type_breakdown ov))
         then \<bar>sum_list (map ct_percentage (ov_content_type_breakdown ov)) - 100\<bar> \<le> 5 / 100
         else sum_list (map ct_count (ov_content_type_breakdown ov)) = 0
              \<and> map ct_percentage (ov_content_type_breakdown ov) = [0, 0, 0, 0, 0]))
   \<and> (list_all size_numeric (db_files st) \<longrightarrow>
        (\<exists>r. get_content_type_statistics st = Inr r))"
proof (intro conjI allI impI)
  fix r assume "get_content_type_statistics st = Inr r"
  then have r: "r = content_breakdown (content_rows st)" by (rule content_types_Inr)
  from breakdown_percentages[of st] show "length r = 5" by (simp add: r)
  from breakdown_percentages[of st]
  show "if 0 < sum_list (map ct_count r)
         then \<bar>sum_list (map ct_percentage r) - 100\<bar> \<le> 5 / 100
         else sum_list (map ct_count r) = 0 \<and> map ct_percentage r = [0, 0, 0, 0, 0]"
    unfolding r by (auto split: if_splits)
next
  fix ov assume "get_dashboard_overview now st = Inr ov"
  then have ov: "ov_content_type_breakdown ov = content_breakdown (content_rows st)"
    by (auto dest!: overview_Inr simp: spec_overview_def)
  from breakdown_percentages[of st] show "length (ov_content_type_breakdown ov) = 5"
    by (simp add: ov)
  from breakdown_percentages[of st]
  show "if 0 < sum_list (map ct_count (ov_content_type_breakdown ov))
         then \<bar>sum_list (map ct_percentage (ov_content_type_breakdown ov)) - 100\<bar> \<le> 5 / 100
         else sum_list (map ct_count (ov_content_type_breakdown ov)) = 0
              \<and> map ct_percentage (ov_content_type_breakdown ov) = [0, 0, 0, 0, 0]"
    unfolding ov by (auto split: if_splits)
next
  assume "list_all size_numeric (db_files st)"
  then show "\<exists>r. get_content_type_statistics st = Inr r"
    by (simp add: content_types_total)
qed

theorem percentages_sum_to_100_witness:
  "list_all size_numeric (db_files spec_example_db)
   \<and> get_content_type_statistics spec_example_db
       = Inr (content_breakdown (content_rows spec_example_db))
   \<and> sum_list (map ct_count (content_breakdown (content_rows spec_example_db))) = 115
   \<and> \<bar>sum_list (map ct_percentage (content_breakdown (content_rows spec_example_db))) - 100\<bar>
        \<le> 5 / 100
   \<and> get_content_type_statistics empty_db = Inr (content_breakdown (content_rows empty_db))
   \<and> map ct_percentage (content_breakdown (content_rows empty_db)) = [0, 0, 0, 0, 0]"
proof -
  have n: "list_all size_numeric (db_files spec_example_db)" by code_simp
  have h: "get_content_type_statistics spec_example_db
       = Inr (content_breakdown (content_rows spec_example_db))" by code_simp
  have t: "sum_list (map ct_count (content_breakdown (content_rows spec_example_db))) = 115"
    by code_simp
  have e: "get_content_type_statistics empty_db = Inr (content_breakdown (content_rows empty_db))"
    by code_simp
  have z: "sum_list (map ct_count (content_breakdown (content_rows empty_db))) = 0"
    by code_simp
  from percentages_sum_to_100[of spec_example_db 0] h t
  have a: "\<bar>sum_list (map ct_percentage (content_breakdown (content_rows spec_example_db))) - 100\<bar>
        \<le> 5 / 100"
    by (auto split: if_splits)
  from percentages_sum_to_100[of empty_db 0] e z
  have b: "map ct_percentage (content_breakdown (content_rows empty_db)) = [0, 0, 0, 0, 0]"
    by (auto split: if_splits)
  from n h t a e b show ?thesis by blast
qed

section \<open>Per-group listing\<close>



section \<open>Per-user listing: order and limit\<close>

text \<open>
  C8. The per-user listing is ordered by total MB, largest first, and the sort is
  stable: the summaries that share any one MB value appear in the order in which their
  users were fetched. The output is a rearrangement of the summaries of the fetched
  users. The top users of the overview are ordered the same way. The listing returns
  whenever every declared size is a number.
\<close>

theorem users_sorted_stable:
  "(\<forall>r. get_users_storage_stats st limit = Inr r \<longrightarrow>
      sorted_wrt (\<lambda>a b. us_storage_usage_mb a \<ge> us_storage_usage_mb b) r
      \<and> mset r = mset (map (spec_user_summary st) (get_users st limit))
      \<and> (\<forall>v. filter (\<lambda>s. us_storage_usage_mb s = v) r
               = filter (\<lambda>s. us_storage_usage_mb s = v)
                   (map (spec_user_summary st) (get_users st limit))))
   \<and> (\<forall>ov. get_dashboard_overview now st = Inr ov \<longrightarrow>
        sorted_wrt (\<lambda>a b. us_storage_usage_mb a \<ge> us_storage_usage_mb b)
          (ov_top_users_by_storage ov))
   \<and> (list_all size_numeric (db_files st) \<longrightarrow>
        (\<exists>r. get_users_storage_stats st limit = Inr r))"
proof (intro conjI allI impI)
  fix r assume "get_users_storage_stats st limit = Inr r"
  then have r: "r = sort_reverse us_storage_usage_mb
                      (map (spec_user_summary st) (get_users st limit))"
    by (rule users_stats_Inr)
  show "sorted_wrt (\<lambda>a b. us_storage_usage_mb a \<ge> us_storage_usage_mb b) r"
    unfolding r by (rule sort_reverse_descending)
  show "mset r = mset (map (spec_user_summary st) (get_users st limit))"
    unfolding r by (rule mset_sort_reverse)
  fix v
  show "filter (\<lambda>s. us_storage_usage_mb s = v) r
               = filter (\<lambda>s. us_storage_usage_mb s = v)
                   (map (spec_user_summary st) (get_users st limit))"
    unfolding r by (rule sort_reverse_stable)
next
  fix ov assume "get_dashboard_overview now st = Inr ov"
  then have "ov_top_users_by_storage ov
      = take 10 (sort_reverse us_storage_usage_mb (map (spec_user_summary st) (db_users st)))"
    by (auto dest!: overview_Inr simp: spec_overview_def)
  then show "sorted_wrt (\<lambda>a b. us_storage_usage_mb a \<ge> us_storage_usage_mb b)
          (ov_top_users_by_storage ov)"
    by (simp add: sorted_wrt_take sort_reverse_descending)
next
  assume "list_all size_numeric (db_files st)"
  then show "\<exists>r. get_users_storage_stats st limit = Inr r"
    by (simp add: users_stats_total)
qed

theorem users_sorted_stable_witness:
  "list_all size_numeric (db_files three_users_db)
   \<and> get_users_storage_stats three_users_db None
       = Inr [spec_user_summary three_users_db (user_of ''c''),
              spec_user_summary three_users_db (user_of ''a''),
              spec_user_summary three_users_db (user_of ''b'')]
   \<and> map us_storage_usage_mb
         [spec_user_summary three_users_db (user_of ''c''),
          spec_user_summary three_users_db (user_of ''a''),
          spec_user_summary three_users_db (user_of ''b'')] = [1, 0, 0]
   \<and> sorted_wrt (\<lambda>a b. us_storage_usage_mb a \<ge> us_storage_usage_mb b)
         [spec_user_summary three_users_db (user_of ''c''),
          spec_user_summary three_users_db (user_of ''a''),
          spec_user_summary three_users_db (user_of ''b'')]"
proof -
  let ?r = "[spec_user_summary three_users_db (user_of ''c''),
          spec_user_summary three_users_db (user_of ''a''),
          spec_user_summary three_users_db (user_of ''b'')]"
  have n: "list_all size_numeric (db_files three_users_db)" by code_simp
  have h: "get_users_storage_stats three_users_db None = Inr ?r" by code_simp
  have v: "map us_storage_usage_mb ?r = [1, 0, 0]" by code_simp
  from users_sorted_stable[of three_users_db None 0] h
  have "sorted_wrt (\<lambda>a b. us_storage_usage_mb a \<ge> us_storage_usage_mb b) ?r"
    by blast
  with n h v show ?thesis by blast
qed



section \<open>Time series: the seven-day window\<close>

text \<open>
  C9. With the period 7d the operation returns seven buckets. Bucket i, for i from 0 to
  6 in this order, is the bucket of the half-open window from anchor + i x 86400 to
  anchor + (i + 1) x 86400 seconds, where anchor = now - 7 x 86400: it counts the
  entities created in that window and is labelled with the date of its start. Each
  window is 86400 seconds long and ends where the next one starts. The operation
  returns whenever every declared size is a number.
\<close>

theorem seven_day_buckets:
  "(\<forall>r. get_time_series_statistics strftime now st ''7d'' = Inr r \<longrightarrow>
      length r = 7
      \<and> r = map (\<lambda>i. spec_bucket strftime st (now - 7 * 86400 + int i * 86400)
                                            (now - 7 * 86400 + (int i + 1) * 86400))
               [0..<7])
   \<and> (\<forall>i. period_window (now - 7 * 24 * 60 * 60) i
             = (now - 7 * 86400 + i * 86400, now - 7 * 86400 + (i + 1) * 86400)
        \<and> snd (period_window (now - 7 * 24 * 60 * 60) i)
             - fst (period_window (now - 7 * 24 * 60 * 60) i) = 86400
        \<and> snd (period_window (now - 7 * 24 * 60 * 60) i)
             = fst (period_window (now - 7 * 24 * 60 * 60) (i + 1)))
   \<and> (list_all size_numeric (db_files st) \<longrightarrow>
        (\<exists>r. get_time_series_statistics strftime now st ''7d'' = Inr r))"
proof (intro conjI allI impI)
  fix r assume "get_time_series_statistics strftime now st ''7d'' = Inr r"
  then obtain days where d: "period_days ''7d'' = Inr days"
    and r: "r = map (\<lambda>i. spec_bucket strftime st (now - days * 86400 + i * 86400)
                       (now - days * 86400 + (i + 1) * 86400)) (py_range days)"
    by (auto dest!: time_series_Inr)
  from d have days: "days = 7" by (simp add: period_days_def)
  show "length r = 7" by (simp add: r days py_range_def)
  show "r = map (\<lambda>i. spec_bucket strftime st (now - 7 * 86400 + int i * 86400)
                                            (now - 7 * 86400 + (int i + 1) * 86400))
               [0..<7]"
    by (simp add: r days py_range_def)
next
  assume "list_all size_numeric (db_files st)"
  then show "\<exists>r. get_time_series_statistics strftime now st ''7d'' = Inr r"
    by (simp add: time_series_total[where days = 7] period_days_def)
qed (simp_all add: period_window_eq)

theorem seven_day_buckets_witness:
  "list_all size_numeric (db_files spec_example_db)
   \<and> get_time_series_statistics (\<lambda>t. []) 86400 spec_example_db ''7d''
       = Inr (map (\<lambda>i. spec_bucket (\<lambda>t. []) spec_example_db
                          (86400 - 7 * 86400 + int i * 86400)
                          (86400 - 7 * 86400 + (int i + 1) * 86400)) [0..<7])
   \<and> map tr_chats_created
         (map (\<lambda>i. spec_bucket (\<lambda>t. []) spec_example_db
                          (86400 - 7 * 86400 + int i * 86400)
                          (86400 - 7 * 86400 + (int i + 1) * 86400)) [0..<7])
       = [0, 0, 0, 0, 0, 0, 10]"
proof -
  have n: "list_all size_numeric (db_files spec_example_db)" by code_simp
  from seven_day_buckets[of "\<lambda>t. []" 86400 spec_example_db] n
  obtain r where r: "get_time_series_statistics (\<lambda>t. []) 86400 spec_example_db ''7d'' = Inr r"
    by blast
  from seven_day_buckets[of "\<lambda>t. []" 86400 spec_example_db] r
  have "r = map (\<lambda>i. spec_bucket (\<lambda>t. []) spec_example_db
                          (86400 - 7 * 86400 + int i * 86400)
                          (86400 - 7 * 86400 + (int i + 1) * 86400)) [0..<7]"
    by blast
  with r have h: "get_time_series_statistics (\<lambda>t. []) 86400 spec_example_db ''7d''
       = Inr (map (\<lambda>i. spec_bucket (\<lambda>t. []) spec_example_db
                          (86400 - 7 * 86400 + int i * 86400)
                          (86400 - 7 * 86400 + (int i + 1) * 86400)) [0..<7])"
    by simp
  have c: "map tr_chats_created
         (map (\<lambda>i. spec_bucket (\<lambda>t. []) spec_example_db
                          (86400 - 7 * 86400 + int i * 86400)
                          (86400 - 7 * 86400 + (int i + 1) * 86400)) [0..<7])
       = [0, 0, 0, 0, 0, 0, 10]"
    by code_simp
  from n h c show ?thesis by blast
qed

end
